theory Spec2Isabelle
  imports Main "HOL-Library.Word"
begin

section \<open>Data model of the messages processor\<close>

text \<open>
  The development embeds \<^verbatim>\<open>src/services/messages-processor/service.ts\<close>:
  the four functions \<^verbatim>\<open>load\<close>, \<^verbatim>\<open>verify\<close>, \<^verbatim>\<open>exit\<close> and \<^verbatim>\<open>runJob\<close> returned by
  \<^verbatim>\<open>makeMessagesProcessor\<close>, together with the helpers \<^verbatim>\<open>readFile\<close> and
  \<^verbatim>\<open>decryptMessage\<close>.

  A rejected promise or a thrown exception is the left summand of \<open>error + 'a\<close>.
  The services injected into \<^verbatim>\<open>makeMessagesProcessor\<close> are records of functions.
  A remote call is a transition on an abstract world \<open>'w\<close>: it returns its answer
  together with the next world, so that two calls with the same argument may answer
  differently.
\<close>

datatype error = Error string | TypeError string

type_synonym bytes = "8 word list"

record ExitMessageBody =
  epoch :: string
  validator_index :: string

record ExitMessage =
  message :: ExitMessageBody
  signature :: string

text \<open>The field \<^verbatim>\<open>exit\<close> of \<^verbatim>\<open>EthDoExitMessage\<close> is called \<open>exit_message\<close> here,
  the name \<open>exit\<close> being kept for the function.\<close>

record EthDoExitMessage =
  exit_message :: ExitMessage
  fork_version :: string

text \<open>The union \<^verbatim>\<open>ExitMessage | EthDoExitMessage\<close>; the test \<^verbatim>\<open>'exit' in validated\<close>
  tells the two apart.\<close>

datatype validated = Bare ExitMessage | EthDo EthDoExitMessage

text \<open>What \<^verbatim>\<open>consensusApi.validatorInfo\<close> answers, as far as the processor reads it.\<close>

record ValidatorInfo =
  index :: string
  pubKey :: string
  isExiting :: bool

record GenesisInfo =
  genesis_time :: string
  genesis_validators_root :: string
  genesis_fork_version :: string

text \<open>The field \<^verbatim>\<open>epoch\<close> of the fork state is called \<open>state_epoch\<close>.\<close>

record ForkState =
  previous_version :: string
  current_version :: string
  state_epoch :: string

record EjectionEvent =
  validatorPubkey :: string

text \<open>A value produced by \<^verbatim>\<open>JSON.parse\<close>. Nothing in the processor reads a number,
  so its payload is kept as an integer.\<close>

datatype json =
    JNull
  | JBool bool
  | JNumber int
  | JString string
  | JArray "json list"
  | JObject "(string \<times> json) list"

subsection \<open>Injected services\<close>

record 'w ConsensusApiService =
  genesis :: "'w \<Rightarrow> (error + GenesisInfo) \<times> 'w"
  state :: "'w \<Rightarrow> (error + ForkState) \<times> 'w"
  validatorInfo :: "string \<Rightarrow> 'w \<Rightarrow> (error + ValidatorInfo) \<times> 'w"
  exitRequest :: "ExitMessage \<Rightarrow> 'w \<Rightarrow> (error + unit) \<times> 'w"

record 'w ExecutionApiService =
  resolveExitBusAddress :: "'w \<Rightarrow> (error + unit) \<times> 'w"
  resolveConsensusAddress :: "'w \<Rightarrow> (error + unit) \<times> 'w"
  latestBlockNumber :: "'w \<Rightarrow> (error + int) \<times> 'w"
  logs :: "int \<Rightarrow> int \<Rightarrow> 'w \<Rightarrow> (error + EjectionEvent list) \<times> 'w"

record 'w StoreService =
  read :: "string \<Rightarrow> 'w \<Rightarrow> (error + string) \<times> 'w"

text \<open>
  The fields of the configuration that the processor reads, as it reads them:
  \<^verbatim>\<open>MESSAGES_LOCATIONS\<close> is what the loop of \<^verbatim>\<open>load\<close> iterates over, a list of
  locations (\<^verbatim>\<open>src/services/config/service.ts\<close> declares a single optional
  \<^verbatim>\<open>MESSAGES_LOCATION\<close>). \<^verbatim>\<open>MESSAGES_PASSWORD\<close> is \<^verbatim>\<open>optional(() => str(...))\<close>: an
  absent password (\<^verbatim>\<open>undefined\<close>) is \<open>None\<close>.
\<close>

record ConfigService =
  MESSAGES_LOCATIONS :: "string list"
  MESSAGES_PASSWORD :: "string option"
  OPERATOR_ID :: string
  STAKING_MODULE_ID :: string

text \<open>
  The functions imported from packages and from \<^verbatim>\<open>./dto.js\<close>, none of which is part of
  the file. They are parameters of the model. The synchronous ones that the source calls
  outside any \<^verbatim>\<open>try\<close> (\<^verbatim>\<open>fromHex\<close>, \<^verbatim>\<open>toHexString\<close>, \<^verbatim>\<open>computeDomain\<close>,
  \<^verbatim>\<open>computeSigningRoot\<close>, \<^verbatim>\<open>bls.verify\<close>, \<^verbatim>\<open>parseInt\<close>, \<^verbatim>\<open>TextDecoder.decode\<close>) are
  taken at their declared signatures, as functions that return a value; the ones the
  source guards with \<^verbatim>\<open>try\<close>/\<^verbatim>\<open>catch\<close> may fail. \<^verbatim>\<open>parseInt\<close> answers \<open>None\<close> for
  \<^verbatim>\<open>NaN\<close>.
\<close>

record Externals =
  fromHex :: "string \<Rightarrow> bytes"
  toHexString :: "bytes \<Rightarrow> string"
  computeDomain :: "bytes \<Rightarrow> bytes \<Rightarrow> bytes \<Rightarrow> bytes"
  computeSigningRoot :: "int option \<times> int option \<Rightarrow> bytes \<Rightarrow> bytes"
  bls_verify :: "bytes \<Rightarrow> bytes \<Rightarrow> bytes \<Rightarrow> bool"
  parseInt :: "string \<Rightarrow> int option"
  JSON_parse :: "string \<Rightarrow> error + json"
  decrypt :: "json \<Rightarrow> string \<Rightarrow> error + bytes"
  TextDecoder_decode :: "bytes \<Rightarrow> string"
  encryptedMessageDTO :: "json \<Rightarrow> error + json"
  exitOrEthDoExitDTO :: "json \<Rightarrow> error + validated"

record 'w Deps =
  config :: ConfigService
  consensusApi :: "'w ConsensusApiService"
  executionApi :: "'w ExecutionApiService"
  s3Service :: "'w StoreService"
  gsService :: "'w StoreService"
  ext :: Externals

subsection \<open>Metrics, logger and the state of a run\<close>

text \<open>
  A labelled counter maps the value of its label to a count:
  \<^verbatim>\<open>metrics.exitMessages.inc({ valid: 'false' })\<close> adds one at \<open>''false''\<close>.
\<close>

record MetricsService =
  exitMessages :: "string \<Rightarrow> nat"
  exitActions :: "string \<Rightarrow> nat"

datatype level = LDebug | LInfo | LWarn | LError

text \<open>The journal records, in order, every remote call and every line handed to the
  logger.\<close>

datatype event =
    Log level string
  | CallS3Read string
  | CallGsRead string
  | CallGenesis
  | CallState
  | CallValidatorInfo string
  | CallExitRequest ExitMessage
  | CallResolveExitBusAddress
  | CallResolveConsensusAddress
  | CallLatestBlockNumber
  | CallLogs int int

text \<open>The remote calls of a journal are its entries other than logger lines.\<close>

fun is_call :: "event \<Rightarrow> bool" where
  "is_call (Log lv msg) = False"
| "is_call ev = True"


record 'w system =
  world :: 'w
  metrics :: MetricsService
  journal :: "event list"

definition call :: "event \<Rightarrow> ('w \<Rightarrow> 'a \<times> 'w) \<Rightarrow> 'w system \<Rightarrow> 'a \<times> 'w system" where
  "call ev f s =
     (case f (world s) of (r, w) \<Rightarrow> (r, s\<lparr>world := w, journal := journal s @ [ev]\<rparr>))"

definition logger :: "level \<Rightarrow> string \<Rightarrow> 'w system \<Rightarrow> 'w system" where
  "logger lv msg s = s\<lparr>journal := journal s @ [Log lv msg]\<rparr>"

definition inc :: "string \<Rightarrow> (string \<Rightarrow> nat) \<Rightarrow> string \<Rightarrow> nat" where
  "inc label c = c(label := c label + 1)"

definition exitMessages_inc :: "string \<Rightarrow> 'w system \<Rightarrow> 'w system" where
  "exitMessages_inc valid s =
     s\<lparr>metrics := (metrics s)\<lparr>exitMessages := inc valid (exitMessages (metrics s))\<rparr>\<rparr>"

definition exitActions_inc :: "string \<Rightarrow> 'w system \<Rightarrow> 'w system" where
  "exitActions_inc result s =
     s\<lparr>metrics := (metrics s)\<lparr>exitActions := inc result (exitActions (metrics s))\<rparr>\<rparr>"

section \<open>The exit trigger and the job runner\<close>

text \<open>
  \<^verbatim>\<open>exit\<close> asks for the validator's info twice: once for \<^verbatim>\<open>isExiting\<close>, once for
  \<^verbatim>\<open>index\<close>. A failure of either request leaves \<^verbatim>\<open>exit\<close> as an exception; a failure
  of \<^verbatim>\<open>exitRequest\<close> is caught.
\<close>

definition exit ::
  "'w Deps \<Rightarrow> ExitMessage list \<Rightarrow> string \<Rightarrow> 'w system \<Rightarrow> (error + unit) \<times> 'w system" where
  "exit D messages pubkey s =
     (case call (CallValidatorInfo pubkey) (validatorInfo (consensusApi D) pubkey) s of
        (Inl e, s1) \<Rightarrow> (Inl e, s1)
      | (Inr info, s1) \<Rightarrow>
          if isExiting info then
            (Inr (), logger LDebug
               (''Exit was initiated, but '' @ pubkey @ '' is already exiting(ed), skipping'') s1)
          else
            (case call (CallValidatorInfo pubkey) (validatorInfo (consensusApi D) pubkey) s1 of
               (Inl e, s2) \<Rightarrow> (Inl e, s2)
             | (Inr info', s2) \<Rightarrow>
                 (let validatorIndex = index info' in
                  case find (\<lambda>msg. validator_index (message msg) = validatorIndex) messages of
                    None \<Rightarrow>
                      (Inr (), exitActions_inc ''error'' (logger LError
                         ''Validator needs to be exited but required message was not found / accessible!''
                         s2))
                  | Some m \<Rightarrow>
                      (case call (CallExitRequest m) (exitRequest (consensusApi D) m) s2 of
                         (Inr u, s3) \<Rightarrow>
                           (Inr (), exitActions_inc ''success'' (logger LInfo
                              ''Voluntary exit message sent successfully to Consensus Layer'' s3))
                       | (Inl e, s3) \<Rightarrow>
                           (Inr (), exitActions_inc ''error'' (logger LError
                              ''Failed to send out exit message'' s3))))))"



section \<open>The message loader\<close>

definition startsWith :: "string \<Rightarrow> string \<Rightarrow> bool" where
  "startsWith str searchString = (take (length searchString) str = searchString)"

definition readFile :: "'w Deps \<Rightarrow> string \<Rightarrow> 'w system \<Rightarrow> (error + string) \<times> 'w system" where
  "readFile D uri s =
     (if startsWith uri ''s3://'' then call (CallS3Read uri) (read (s3Service D) uri) s
      else call (CallGsRead uri) (read (gsService D) uri) s)"

text \<open>
  The test \<^verbatim>\<open>'crypto' in json\<close>. The operator \<^verbatim>\<open>in\<close> looks a key up in an object (an
  array is an object without that key) and throws a \<^verbatim>\<open>TypeError\<close> when its right operand
  is not an object: \<^verbatim>\<open>null\<close>, a boolean, a number or a string, all of which
  \<^verbatim>\<open>JSON.parse\<close> can return.
\<close>

fun crypto_in :: "json \<Rightarrow> error + bool" where
  "crypto_in (JObject kvs) = Inr (''crypto'' \<in> set (map fst kvs))"
| "crypto_in (JArray xs) = Inr False"
| "crypto_in j = Inl (TypeError ''Cannot use in operator to search for crypto'')"

text \<open>\<^verbatim>\<open>!config.MESSAGES_PASSWORD\<close> holds for \<^verbatim>\<open>undefined\<close> and for the empty string.\<close>

definition decryptMessage :: "'w Deps \<Rightarrow> json \<Rightarrow> error + json" where
  "decryptMessage D input =
     (case MESSAGES_PASSWORD (config D) of
        None \<Rightarrow> Inl (Error ''Password was not supplied'')
      | Some password \<Rightarrow>
          if password = [] then Inl (Error ''Password was not supplied'')
          else
            (case encryptedMessageDTO (ext D) input of
               Inl e \<Rightarrow> Inl e
             | Inr checked \<Rightarrow>
                 (case decrypt (ext D) checked password of
                    Inl e \<Rightarrow> Inl e
                  | Inr content \<Rightarrow>
                      (case JSON_parse (ext D) (TextDecoder_decode (ext D) content) of
                         Inl e \<Rightarrow> Inl (Error ''Unparseable JSON after decryption'')
                       | Inr json \<Rightarrow> Inr json))))"

text \<open>\<^verbatim>\<open>'exit' in validated ? validated.exit : validated\<close>\<close>

fun unwrap :: "validated \<Rightarrow> ExitMessage" where
  "unwrap (EthDo w) = exit_message w"
| "unwrap (Bare m) = m"

text \<open>
  The body of the loop of \<^verbatim>\<open>load\<close> for one location, given the messages pushed so far.
  \<open>Inr\<close> is the end of the iteration (by \<^verbatim>\<open>continue\<close> or after \<^verbatim>\<open>push\<close>), \<open>Inl\<close> an
  exception that no \<^verbatim>\<open>catch\<close> of the body holds back.
\<close>

definition load_file ::
  "'w Deps \<Rightarrow> string \<Rightarrow> ExitMessage list \<Rightarrow> 'w system \<Rightarrow>
     (error + ExitMessage list) \<times> 'w system" where
  "load_file D file messages s =
     (case readFile D file s of
        (Inl e, s1) \<Rightarrow> (Inr messages, logger LWarn (''Unparseable read file '' @ file) s1)
      | (Inr rd, s1) \<Rightarrow>
     (case JSON_parse (ext D) rd of
        Inl e \<Rightarrow>
          (Inr messages,
           exitMessages_inc ''false'' (logger LWarn (''Unparseable JSON in file '' @ file) s1))
      | Inr json \<Rightarrow>
     (case crypto_in json of
        Inl e \<Rightarrow> (Inl e, s1)
      | Inr encrypted \<Rightarrow>
     (case (if encrypted then decryptMessage D json else Inr json) of
        Inl e \<Rightarrow>
          (Inr messages,
           exitMessages_inc ''false''
             (logger LWarn (''Unable to decrypt encrypted file: '' @ file) s1))
      | Inr json' \<Rightarrow>
     (case exitOrEthDoExitDTO (ext D) json' of
        Inl e \<Rightarrow>
          (Inr messages,
           exitMessages_inc ''false'' (logger LError (file @ '' failed validation:'') s1))
      | Inr v \<Rightarrow> (Inr (messages @ [unwrap v]), s1))))))"

fun load_loop ::
  "'w Deps \<Rightarrow> string list \<Rightarrow> ExitMessage list \<Rightarrow> 'w system \<Rightarrow>
     (error + ExitMessage list) \<times> 'w system" where
  "load_loop D [] messages s = (Inr messages, s)"
| "load_loop D (file # files) messages s =
     (case load_file D file messages s of
        (Inl e, s1) \<Rightarrow> (Inl e, s1)
      | (Inr messages', s1) \<Rightarrow> load_loop D files messages' s1)"

definition load :: "'w Deps \<Rightarrow> 'w system \<Rightarrow> (error + ExitMessage list) \<times> 'w system" where
  "load D s = load_loop D (MESSAGES_LOCATIONS (config D)) [] s"

section \<open>The signature verifier\<close>

text \<open>The constant of \<^verbatim>\<open>@lodestar/params\<close>.\<close>

definition DOMAIN_VOLUNTARY_EXIT :: bytes where
  "DOMAIN_VOLUNTARY_EXIT = [4, 0, 0, 0]"

text \<open>
  The closure \<^verbatim>\<open>verifyFork\<close>, with the variables it captures as arguments:
  \<open>verifyFork_isValid\<close> is the value it computes, \<open>verifyFork_line\<close> the debug line it
  writes each time it runs.
\<close>

definition verifyFork_isValid ::
  "'w Deps \<Rightarrow> GenesisInfo \<Rightarrow> ValidatorInfo \<Rightarrow> ExitMessage \<Rightarrow> bytes \<Rightarrow> bool" where
  "verifyFork_isValid D gen info m fork =
     (let domain = computeDomain (ext D) DOMAIN_VOLUNTARY_EXIT fork
                     (fromHex (ext D) (genesis_validators_root gen));
          parsedExit = (parseInt (ext D) (epoch (message m)),
                        parseInt (ext D) (validator_index (message m)));
          signingRoot = computeSigningRoot (ext D) parsedExit domain
      in bls_verify (ext D) (fromHex (ext D) (pubKey info)) signingRoot
           (fromHex (ext D) (signature m)))"

definition verifyFork_line :: "'w Deps \<Rightarrow> ExitMessage \<Rightarrow> bytes \<Rightarrow> bool \<Rightarrow> string" where
  "verifyFork_line D m fork isValid =
     ''Singature '' @ (if isValid then ''valid'' else ''invalid'') @ '' for validator '' @
     validator_index (message m) @ '' for fork '' @ toHexString (ext D) fork"

definition verifyFork ::
  "'w Deps \<Rightarrow> GenesisInfo \<Rightarrow> ValidatorInfo \<Rightarrow> ExitMessage \<Rightarrow> bytes \<Rightarrow> 'w system \<Rightarrow>
     bool \<times> 'w system" where
  "verifyFork D gen info m fork s =
     (let isValid = verifyFork_isValid D gen info m fork
      in (isValid, logger LDebug (verifyFork_line D m fork isValid) s))"

text \<open>The body of the loop of \<^verbatim>\<open>verify\<close> for one message, given the messages accepted
  so far.\<close>

definition verify_message ::
  "'w Deps \<Rightarrow> GenesisInfo \<Rightarrow> ForkState \<Rightarrow> ExitMessage \<Rightarrow> ExitMessage list \<Rightarrow> 'w system \<Rightarrow>
     ExitMessage list \<times> 'w system" where
  "verify_message D gen st m validMessages s =
     (let validatorIndex = validator_index (message m) in
      case call (CallValidatorInfo validatorIndex)
             (validatorInfo (consensusApi D) validatorIndex) s of
        (Inl e, s1) \<Rightarrow>
          (validMessages,
           exitMessages_inc ''false''
             (logger LError (''Failed to get validator info for index '' @ validatorIndex) s1))
      | (Inr info, s1) \<Rightarrow>
          if isExiting info then
            (validMessages,
             exitMessages_inc ''false''
               (logger LDebug (pubKey info @ '' exiting(ed), skipping validation'') s1))
          else
            (case verifyFork D gen info m (fromHex (ext D) (current_version st)) s1 of
               (isValid, s2) \<Rightarrow>
            (case (if \<not> isValid
                   then verifyFork D gen info m (fromHex (ext D) (previous_version st)) s2
                   else (isValid, s2)) of
               (isValid', s3) \<Rightarrow>
                 if \<not> isValid' then
                   (validMessages,
                    exitMessages_inc ''false''
                      (logger LError (''Invalid signature for validator '' @ validatorIndex) s3))
                 else (validMessages @ [m], exitMessages_inc ''true'' s3))))"

fun verify_loop ::
  "'w Deps \<Rightarrow> GenesisInfo \<Rightarrow> ForkState \<Rightarrow> ExitMessage list \<Rightarrow> ExitMessage list \<Rightarrow>
     'w system \<Rightarrow> ExitMessage list \<times> 'w system" where
  "verify_loop D gen st [] validMessages s = (validMessages, s)"
| "verify_loop D gen st (m # ms) validMessages s =
     (case verify_message D gen st m validMessages s of
        (validMessages', s1) \<Rightarrow> verify_loop D gen st ms validMessages' s1)"

definition verify ::
  "'w Deps \<Rightarrow> ExitMessage list \<Rightarrow> 'w system \<Rightarrow> (error + ExitMessage list) \<times> 'w system" where
  "verify D messages s =
     (case call CallGenesis (genesis (consensusApi D)) s of
        (Inl e, s1) \<Rightarrow> (Inl e, s1)
      | (Inr gen, s1) \<Rightarrow>
     (case call CallState (state (consensusApi D)) s1 of
        (Inl e, s2) \<Rightarrow> (Inl e, s2)
      | (Inr st, s2) \<Rightarrow>
     (case verify_loop D gen st messages [] s2 of
        (validMessages, s3) \<Rightarrow> (Inr validMessages, s3))))"

section \<open>A sample deployment\<close>

text \<open>
  A concrete instance of every injected service, on which the theorems below are
  exercised. The world is the list of the public keys whose exit has been requested.
  Three validators are known to the consensus node.
\<close>

definition sample_validators :: "(string \<times> string) list" where
  "sample_validators = [(''1'', ''0xaa''), (''2'', ''0xbb''), (''3'', ''0xcc'')]"

definition sample_validatorInfo ::
  "string \<Rightarrow> string list \<Rightarrow> (error + ValidatorInfo) \<times> string list" where
  "sample_validatorInfo k w =
     (case find (\<lambda>(i, p). i = k \<or> p = k) sample_validators of
        None \<Rightarrow> (Inl (Error ''validator not found''), w)
      | Some (i, p) \<Rightarrow> (Inr \<lparr>index = i, pubKey = p, isExiting = (p \<in> set w)\<rparr>, w))"

definition sample_exitRequest ::
  "ExitMessage \<Rightarrow> string list \<Rightarrow> (error + unit) \<times> string list" where
  "sample_exitRequest m w =
     (case find (\<lambda>(i, p). i = validator_index (message m)) sample_validators of
        None \<Rightarrow> (Inl (Error ''validator not found''), w)
      | Some (i, p) \<Rightarrow> (Inr (), p # w))"

definition sample_consensusApi :: "string list ConsensusApiService" where
  "sample_consensusApi =
     \<lparr>genesis = (\<lambda>w. (Inr \<lparr>genesis_time = ''1606824023'', genesis_validators_root = ''0x4b'',
                            genesis_fork_version = ''0x00''\<rparr>, w)),
      state = (\<lambda>w. (Inr \<lparr>previous_version = ''0x01'', current_version = ''0x02'',
                          state_epoch = ''100''\<rparr>, w)),
      validatorInfo = sample_validatorInfo,
      exitRequest = sample_exitRequest\<rparr>"

definition sample_executionApi :: "string list ExecutionApiService" where
  "sample_executionApi =
     \<lparr>resolveExitBusAddress = (\<lambda>w. (Inr (), w)),
      resolveConsensusAddress = (\<lambda>w. (Inr (), w)),
      latestBlockNumber = (\<lambda>w. (Inr 1000, w)),
      logs = (\<lambda>fromBlock toBlock w. (Inr [\<lparr>validatorPubkey = ''0xaa''\<rparr>], w))\<rparr>"

text \<open>The files of the sample: one that is not JSON, a signed exit message, a message
  without \<^verbatim>\<open>signature\<close>, the JSON text \<^verbatim>\<open>null\<close>, an encrypted envelope, and a wrapped
  message in the second store.\<close>

definition sample_files :: "(string \<times> string) list" where
  \<open>sample_files =
     [(''s3://bucket/broken.json'', ''{''),
      (''s3://bucket/valid.json'',
         ''{"message":{"epoch":"5","validator_index":"1"},"signature":"0xaa0x020x4b"}''),
      (''s3://bucket/nosig.json'', ''{"message":{"epoch":"5","validator_index":"2"}}''),
      (''s3://bucket/null.json'', ''null''),
      (''s3://bucket/keystore.json'', ''{"crypto":{},"version":4}''),
      (''gs://bucket/wrapped.json'',
         ''{"exit":{"message":{"epoch":"5","validator_index":"3"},"signature":"0xcc0x010x4b"},"fork_version":"0x01"}'')]\<close>

definition sample_store :: "string list StoreService" where
  "sample_store =
     \<lparr>read = (\<lambda>uri w. case map_of sample_files uri of
                         None \<Rightarrow> (Inl (Error ''NoSuchKey''), w)
                       | Some text \<Rightarrow> (Inr text, w))\<rparr>"

text \<open>What \<^verbatim>\<open>JSON.parse\<close> returns on the texts of the sample files; any other text is
  taken to be a syntax error.\<close>

definition sample_JSON_parse :: "string \<Rightarrow> error + json" where
  \<open>sample_JSON_parse text =
     (if text = ''{"message":{"epoch":"5","validator_index":"1"},"signature":"0xaa0x020x4b"}''
      then Inr (JObject [(''message'', JObject [(''epoch'', JString ''5''),
                                               (''validator_index'', JString ''1'')]),
                         (''signature'', JString ''0xaa0x020x4b'')])
      else if text = ''{"message":{"epoch":"5","validator_index":"2"}}''
      then Inr (JObject [(''message'', JObject [(''epoch'', JString ''5''),
                                               (''validator_index'', JString ''2'')])])
      else if text = ''null'' then Inr JNull
      else if text = ''{"crypto":{},"version":4}''
      then Inr (JObject [(''crypto'', JObject []), (''version'', JNumber 4)])
      else if text = ''{"exit":{"message":{"epoch":"5","validator_index":"3"},"signature":"0xcc0x010x4b"},"fork_version":"0x01"}''
      then Inr (JObject [(''exit'', JObject [(''message'', JObject [(''epoch'', JString ''5''),
                                               (''validator_index'', JString ''3'')]),
                                            (''signature'', JString ''0xcc0x010x4b'')]),
                         (''fork_version'', JString ''0x01'')])
      else Inl (Error ''SyntaxError''))\<close>

text \<open>
  Modelled from the spec: \<^verbatim>\<open>exitOrEthDoExitDTO\<close> of \<^verbatim>\<open>./dto.js\<close> is not part of the
  sources. The spec gives the two shapes it accepts: the bare form
  \<^verbatim>\<open>{ message: { epoch: string, validator_index: string }, signature: string }\<close> and the
  wrapped form \<^verbatim>\<open>{ exit: ExitMessage, fork_version: string }\<close>; anything else is
  rejected. It is used for the sample only: the theorems hold for every validator.
\<close>

definition str_field :: "string \<Rightarrow> (string \<times> json) list \<Rightarrow> error + string" where
  "str_field k kvs =
     (case map_of kvs k of Some (JString v) \<Rightarrow> Inr v | _ \<Rightarrow> Inl (Error (''Invalid '' @ k)))"

definition obj_field :: "string \<Rightarrow> (string \<times> json) list \<Rightarrow> error + (string \<times> json) list" where
  "obj_field k kvs =
     (case map_of kvs k of Some (JObject v) \<Rightarrow> Inr v | _ \<Rightarrow> Inl (Error (''Invalid '' @ k)))"

definition exitMessageDTO :: "(string \<times> json) list \<Rightarrow> error + ExitMessage" where
  "exitMessageDTO kvs =
     (case obj_field ''message'' kvs of
        Inl e \<Rightarrow> Inl e
      | Inr body \<Rightarrow>
     (case str_field ''epoch'' body of
        Inl e \<Rightarrow> Inl e
      | Inr ep \<Rightarrow>
     (case str_field ''validator_index'' body of
        Inl e \<Rightarrow> Inl e
      | Inr vi \<Rightarrow>
     (case str_field ''signature'' kvs of
        Inl e \<Rightarrow> Inl e
      | Inr sg \<Rightarrow>
          Inr \<lparr>message = \<lparr>epoch = ep, validator_index = vi\<rparr>, signature = sg\<rparr>))))"

definition spec_exitOrEthDoExitDTO :: "json \<Rightarrow> error + validated" where
  "spec_exitOrEthDoExitDTO input =
     (case input of
        JObject kvs \<Rightarrow>
          if ''exit'' \<in> set (map fst kvs) then
            (case obj_field ''exit'' kvs of
               Inl e \<Rightarrow> Inl e
             | Inr inner \<Rightarrow>
            (case exitMessageDTO inner of
               Inl e \<Rightarrow> Inl e
             | Inr m \<Rightarrow>
            (case str_field ''fork_version'' kvs of
               Inl e \<Rightarrow> Inl e
             | Inr fv \<Rightarrow> Inr (EthDo \<lparr>exit_message = m, fork_version = fv\<rparr>))))
          else map_sum id Bare (exitMessageDTO kvs)
      | _ \<Rightarrow> Inl (Error ''Invalid exit message''))"

text \<open>
  Stand-ins for the cryptographic packages, just rich enough to tell a good
  signature from a bad one: \<^verbatim>\<open>fromHex\<close> keeps the character codes of its text, the
  domain is the fork version followed by the genesis validators root, the signing
  root is the domain, and a signature is good when it is the public key followed by
  the signing root. No envelope of the sample can be opened.
\<close>

definition sample_fromHex :: "string \<Rightarrow> bytes" where
  "sample_fromHex hex = map (\<lambda>c. of_nat (of_char c)) hex"

definition sample_ext :: Externals where
  "sample_ext =
     \<lparr>fromHex = sample_fromHex,
      toHexString = (\<lambda>b. replicate (length b) CHR ''f''),
      computeDomain = (\<lambda>domainType fork root. fork @ root),
      computeSigningRoot = (\<lambda>parsedExit domain. domain),
      bls_verify = (\<lambda>pk root sig. sig = pk @ root),
      parseInt = (\<lambda>str. if str = ''5'' then Some 5 else None),
      JSON_parse = sample_JSON_parse,
      decrypt = (\<lambda>checked password. Inl (Error ''DecryptionFailed'')),
      TextDecoder_decode = (\<lambda>content. []),
      encryptedMessageDTO = (\<lambda>input. Inr input),
      exitOrEthDoExitDTO = spec_exitOrEthDoExitDTO\<rparr>"

definition sample_deps :: "string list \<Rightarrow> string option \<Rightarrow> string list Deps" where
  "sample_deps locations password =
     \<lparr>config = \<lparr>MESSAGES_LOCATIONS = locations, MESSAGES_PASSWORD = password,
                 OPERATOR_ID = ''7'', STAKING_MODULE_ID = ''1''\<rparr>,
      consensusApi = sample_consensusApi,
      executionApi = sample_executionApi,
      s3Service = sample_store,
      gsService = sample_store,
      ext = sample_ext\<rparr>"

definition no_metrics :: MetricsService where
  "no_metrics = \<lparr>exitMessages = (\<lambda>label. 0), exitActions = (\<lambda>label. 0)\<rparr>"

definition sample_system :: "string list \<Rightarrow> string list system" where
  "sample_system w = \<lparr>world = w, metrics = no_metrics, journal = []\<rparr>"

text \<open>The message of validator 1, signed under the current fork, and the message of
  validator 3, signed under the previous one.\<close>

definition message_1 :: ExitMessage where
  "message_1 = \<lparr>message = \<lparr>epoch = ''5'', validator_index = ''1''\<rparr>,
                signature = ''0xaa0x020x4b''\<rparr>"

definition message_3 :: ExitMessage where
  "message_3 = \<lparr>message = \<lparr>epoch = ''5'', validator_index = ''3''\<rparr>,
                signature = ''0xcc0x010x4b''\<rparr>"



section \<open>Properties\<close>

lemmas sample_defs = sample_deps_def sample_system_def sample_consensusApi_def sample_executionApi_def
  sample_store_def sample_ext_def sample_validatorInfo_def sample_exitRequest_def sample_validators_def
  sample_files_def sample_JSON_parse_def no_metrics_def message_1_def message_3_def sample_fromHex_def
  spec_exitOrEthDoExitDTO_def exitMessageDTO_def str_field_def obj_field_def
lemmas effect_defs = call_def logger_def exitMessages_inc_def exitActions_inc_def

subsection \<open>The exit trigger\<close>

text \<open>
  Claim C9. \<^verbatim>\<open>exit\<close> is a no-op on a validator that is already exiting: whenever the
  validator info fetched for the public key reports \<^verbatim>\<open>isExiting\<close>, \<^verbatim>\<open>exit\<close> returns
  normally, leaves both counters as they were, and its only remote call is that one
  fetch, followed by a debug line; no exit request is submitted. A second call after
  a first one that succeeded therefore submits nothing again.
\<close>

theorem exit_already_exiting_noop:
  assumes "validatorInfo (consensusApi D) pubkey (world s) = (Inr info, w)"
    and "isExiting info"
  shows "fst (exit D messages pubkey s) = Inr () \<and>
         metrics (snd (exit D messages pubkey s)) = metrics s \<and>
         world (snd (exit D messages pubkey s)) = w \<and>
         journal (snd (exit D messages pubkey s)) =
           journal s @ [CallValidatorInfo pubkey,
             Log LDebug (''Exit was initiated, but '' @ pubkey @ '' is already exiting(ed), skipping'')]"
  using assms by (simp add: exit_def effect_defs)

text \<open>The sample: \<^verbatim>\<open>exit\<close> twice in a row for validator \<open>0xaa\<close>. The first call
  submits the message, after which the node reports the validator as exiting; the
  second call changes no counter and the journal still holds one submission.\<close>

theorem exit_already_exiting_noop_witness:
  "fst (exit (sample_deps [] None) [message_1] ''0xaa'' (sample_system [])) = Inr () \<and>
   isExiting (projr (fst (sample_validatorInfo ''0xaa''
      (world (snd (exit (sample_deps [] None) [message_1] ''0xaa'' (sample_system []))))))) \<and>
   metrics (snd (exit (sample_deps [] None) [message_1] ''0xaa''
      (snd (exit (sample_deps [] None) [message_1] ''0xaa'' (sample_system []))))) =
   metrics (snd (exit (sample_deps [] None) [message_1] ''0xaa'' (sample_system []))) \<and>
   count_list (journal (snd (exit (sample_deps [] None) [message_1] ''0xaa''
      (snd (exit (sample_deps [] None) [message_1] ''0xaa'' (sample_system []))))))
      (CallExitRequest message_1) = 1"
proof -
  let ?D = "sample_deps [] None"
  let ?s1 = "snd (exit ?D [message_1] ''0xaa'' (sample_system []))"
  let ?info = "\<lparr>index = ''1'', pubKey = ''0xaa'', isExiting = True\<rparr>"
  have first: "exit ?D [message_1] ''0xaa'' (sample_system []) =
      (Inr (), \<lparr>world = [''0xaa''],
                metrics = no_metrics\<lparr>exitActions := inc ''success'' (exitActions no_metrics)\<rparr>,
                journal = [CallValidatorInfo ''0xaa'', CallValidatorInfo ''0xaa'',
                           CallExitRequest message_1,
                           Log LInfo ''Voluntary exit message sent successfully to Consensus Layer'']\<rparr>)"
    by (simp add: exit_def effect_defs sample_defs)
  have fetch: "validatorInfo (consensusApi ?D) ''0xaa'' (world ?s1) = (Inr ?info, [''0xaa''])"
    by (simp add: first) (simp add: sample_defs)
  have exiting: "isExiting ?info" by simp
  from exit_already_exiting_noop [OF fetch exiting, of "[message_1]"] first fetch
  show ?thesis by (simp add: sample_defs)
qed

text \<open>
  Claim C7. When the validator is not already exiting and no message of the list
  carries the validator's index, \<^verbatim>\<open>exit\<close> returns normally, adds one to the
  \<open>error\<close> label of the exit-actions counter and changes no other count, and its
  journal ends with the two info fetches and the error line: the exit-request
  endpoint is not called and nothing is tried again.
\<close>

theorem exit_without_message:
  assumes "validatorInfo (consensusApi D) pubkey (world s) = (Inr info, w1)"
    and "\<not> isExiting info"
    and "validatorInfo (consensusApi D) pubkey w1 = (Inr info', w2)"
    and "\<forall>msg \<in> set messages. validator_index (message msg) \<noteq> index info'"
  shows "fst (exit D messages pubkey s) = Inr () \<and>
         metrics (snd (exit D messages pubkey s)) =
           (metrics s)\<lparr>exitActions := inc ''error'' (exitActions (metrics s))\<rparr> \<and>
         journal (snd (exit D messages pubkey s)) =
           journal s @ [CallValidatorInfo pubkey, CallValidatorInfo pubkey,
             Log LError ''Validator needs to be exited but required message was not found / accessible!'']"
proof -
  from assms(4) have "find (\<lambda>msg. validator_index (message msg) = index info') messages = None"
    by (simp add: find_None_iff)
  with assms(1-3) show ?thesis
    by (simp add: exit_def effect_defs)
qed

theorem exit_without_message_witness:
  "exitActions (metrics (snd (exit (sample_deps [] None) [message_3] ''0xaa'' (sample_system []))))
     ''error'' = 1 \<and>
   filter is_call (journal (snd (exit (sample_deps [] None) [message_3] ''0xaa'' (sample_system []))))
     = [CallValidatorInfo ''0xaa'', CallValidatorInfo ''0xaa'']"
proof -
  let ?D = "sample_deps [] None"
  let ?info = "\<lparr>index = ''1'', pubKey = ''0xaa'', isExiting = False\<rparr>"
  have fetch: "validatorInfo (consensusApi ?D) ''0xaa'' (world (sample_system [])) = (Inr ?info, [])"
    by (simp add: sample_defs)
  have fetch': "validatorInfo (consensusApi ?D) ''0xaa'' [] = (Inr ?info, [])"
    by (simp add: sample_defs)
  have pending: "\<not> isExiting ?info" by simp
  have absent: "\<forall>msg \<in> set [message_3]. validator_index (message msg) \<noteq> index ?info"
    by (simp add: message_3_def)
  from exit_without_message [OF fetch pending fetch' absent]
  show ?thesis by (simp add: sample_system_def no_metrics_def inc_def)
qed

text \<open>
  Claim C8, as the code has it. On a validator that the first fetch reports as not
  exiting, \<^verbatim>\<open>exit\<close> fetches the validator info a second time, and the index that
  selects the message is read from the answer to that second fetch: the remote calls
  of \<^verbatim>\<open>exit\<close> are the two fetches, followed by the submission of the first message
  whose \<^verbatim>\<open>validator_index\<close> equals the index of the second answer, if the second
  fetch succeeds and there is such a message.
\<close>

theorem exit_fetches_info_twice:
  assumes "validatorInfo (consensusApi D) pubkey (world s) = (Inr info, w1)"
    and "\<not> isExiting info"
    and "validatorInfo (consensusApi D) pubkey w1 = (r, w2)"
  shows "filter is_call (journal (snd (exit D messages pubkey s))) =
           filter is_call (journal s) @ [CallValidatorInfo pubkey, CallValidatorInfo pubkey] @
           (case r of
              Inl e \<Rightarrow> []
            | Inr info' \<Rightarrow>
                (case find (\<lambda>msg. validator_index (message msg) = index info') messages of
                   None \<Rightarrow> []
                 | Some m \<Rightarrow> [CallExitRequest m]))"
  using assms
  by (auto simp: exit_def effect_defs split: sum.splits option.splits prod.splits)

theorem exit_fetches_info_twice_witness:
  "filter is_call
     (journal (snd (exit (sample_deps [] None) [message_1, message_3] ''0xcc'' (sample_system []))))
     = [CallValidatorInfo ''0xcc'', CallValidatorInfo ''0xcc'', CallExitRequest message_3]"
proof -
  let ?D = "sample_deps [] None"
  let ?info = "\<lparr>index = ''3'', pubKey = ''0xcc'', isExiting = False\<rparr>"
  have fetch: "validatorInfo (consensusApi ?D) ''0xcc'' (world (sample_system [])) = (Inr ?info, [])"
    by (simp add: sample_defs)
  have fetch': "validatorInfo (consensusApi ?D) ''0xcc'' [] = (Inr ?info, [])"
    by (simp add: sample_defs)
  have pending: "\<not> isExiting ?info" by simp
  from exit_fetches_info_twice [OF fetch pending fetch', of "[message_1, message_3]"]
  show ?thesis by (simp add: sample_system_def message_1_def message_3_def)
qed

text \<open>Claim C8 as stated fails: in the sample, validator \<open>0xaa\<close> is not exiting and
  one call of \<^verbatim>\<open>exit\<close> fetches its info twice.\<close>

theorem exit_fetches_info_twice_counterexample:
  "\<not> isExiting (projr (fst (sample_validatorInfo ''0xaa'' []))) \<and>
   count_list (journal (snd (exit (sample_deps [] None) [message_1] ''0xaa'' (sample_system []))))
     (CallValidatorInfo ''0xaa'') = 2"
  by (simp add: exit_def effect_defs sample_defs)

subsection \<open>The job runner\<close>





subsection \<open>The message loader\<close>

text \<open>
  Claim C10. A parsed JSON object with a top-level key \<^verbatim>\<open>crypto\<close> is handed to
  \<^verbatim>\<open>decryptMessage\<close> whatever else it holds, and without a configured password
  \<^verbatim>\<open>decryptMessage\<close> fails before \<^verbatim>\<open>encryptedMessageDTO\<close> is consulted: the location
  is skipped, with a warning and one more invalid message counted. The theorem holds
  for every envelope validator, every decryptor and every message validator.
\<close>

theorem load_file_crypto_without_password:
  assumes "readFile D location s = (Inr rd, s1)"
    and "JSON_parse (ext D) rd = Inr (JObject kvs)"
    and "''crypto'' \<in> set (map fst kvs)"
    and "MESSAGES_PASSWORD (config D) = None"
  shows "decryptMessage D (JObject kvs) = Inl (Error ''Password was not supplied'') \<and>
         load_file D location messages s =
           (Inr messages,
            exitMessages_inc ''false''
              (logger LWarn (''Unable to decrypt encrypted file: '' @ location) s1))"
  using assms by (simp add: load_file_def decryptMessage_def)

theorem load_file_crypto_without_password_witness:
  "load (sample_deps [''s3://bucket/keystore.json''] None) (sample_system []) =
     (Inr [],
      exitMessages_inc ''false''
        (logger LWarn ''Unable to decrypt encrypted file: s3://bucket/keystore.json''
           \<lparr>world = [], metrics = no_metrics,
             journal = [CallS3Read ''s3://bucket/keystore.json'']\<rparr>))"
proof -
  let ?D = "sample_deps [''s3://bucket/keystore.json''] None"
  let ?s1 = "\<lparr>world = [], metrics = no_metrics,
               journal = [CallS3Read ''s3://bucket/keystore.json'']\<rparr> :: string list system"
  let ?kvs = "[(''crypto'', JObject []), (''version'', JNumber 4)]"
  have rd: "readFile ?D ''s3://bucket/keystore.json'' (sample_system []) =
              (Inr (the (map_of sample_files ''s3://bucket/keystore.json'')), ?s1)"
    by (simp add: readFile_def startsWith_def call_def sample_defs)
  have parse: "JSON_parse (ext ?D) (the (map_of sample_files ''s3://bucket/keystore.json'')) =
                 Inr (JObject ?kvs)"
    by (simp add: sample_defs)
  have key: "''crypto'' \<in> set (map fst ?kvs)" by simp
  have pw: "MESSAGES_PASSWORD (config ?D) = None" by (simp add: sample_deps_def)
  have locations: "MESSAGES_LOCATIONS (config ?D) = [''s3://bucket/keystore.json'']"
    by (simp add: sample_deps_def)
  from load_file_crypto_without_password [OF rd parse key pw, of "[]"]
  show ?thesis by (simp add: load_def locations)
qed

text \<open>
  The test \<^verbatim>\<open>'crypto' in json\<close> stands outside every \<^verbatim>\<open>try\<close> of the loop, and it
  throws when the file holds JSON that is not an object. This is the one way for an
  iteration of \<^verbatim>\<open>load\<close> to raise.
\<close>

lemma load_file_raises_iff:
  "isl (fst (load_file D location messages s)) \<longleftrightarrow>
     (\<exists>rd j. fst (readFile D location s) = Inr rd \<and> JSON_parse (ext D) rd = Inr j \<and>
             isl (crypto_in j))"
  by (auto simp: load_file_def effect_defs split: prod.splits sum.splits)

text \<open>
  Claim C6, at a failing input. The first location holds the JSON text \<^verbatim>\<open>null\<close>, the
  second a well-formed message: \<^verbatim>\<open>load\<close> raises the \<^verbatim>\<open>TypeError\<close> of the operator
  \<^verbatim>\<open>in\<close> and returns no message, where the claim has the first location skipped and
  the message of the second returned.
\<close>

theorem load_raises_on_json_null:
  "fst (load (sample_deps [''s3://bucket/null.json'', ''s3://bucket/valid.json''] None)
          (sample_system [])) =
     Inl (TypeError ''Cannot use in operator to search for crypto'')"
  by (simp add: load_def load_file_def readFile_def startsWith_def call_def sample_defs)

text \<open>The scenario of the three locations (text that is not JSON, a well-formed message,
  a message without \<^verbatim>\<open>signature\<close>) does behave as described: one message is returned
  and two invalid messages are counted.\<close>

lemma load_three_locations:
  "fst (load (sample_deps [''s3://bucket/broken.json'', ''s3://bucket/valid.json'',
                           ''s3://bucket/nosig.json''] None) (sample_system [])) = Inr [message_1] \<and>
   exitMessages (metrics (snd (load (sample_deps [''s3://bucket/broken.json'',
      ''s3://bucket/valid.json'', ''s3://bucket/nosig.json''] None) (sample_system [])))) ''false'' = 2"
  by (simp add: load_def load_file_def readFile_def startsWith_def decryptMessage_def
        effect_defs inc_def sample_defs)

subsection \<open>The signature verifier\<close>





text \<open>
  Claim C1, as the code has it. When the validator info fetched for a message reports
  \<^verbatim>\<open>isExiting\<close>, the iteration leaves the list of valid messages as it is, so the
  message is not returned, and it does count the message as invalid: the label
  \<open>false\<close> of the exit-messages counter goes up by one and no other count changes.
  The iteration makes the one fetch and writes a debug line.
\<close>

theorem verify_skips_exiting_validator:
  assumes "validatorInfo (consensusApi D) (validator_index (message m)) (world s) = (Inr info, w)"
    and "isExiting info"
  shows "fst (verify_message D gen st m validMessages s) = validMessages \<and>
         metrics (snd (verify_message D gen st m validMessages s)) =
           (metrics s)\<lparr>exitMessages := inc ''false'' (exitMessages (metrics s))\<rparr> \<and>
         journal (snd (verify_message D gen st m validMessages s)) =
           journal s @ [CallValidatorInfo (validator_index (message m)),
                        Log LDebug (pubKey info @ '' exiting(ed), skipping validation'')] \<and>
         verify_loop D gen st (m # ms) validMessages s =
           verify_loop D gen st ms validMessages
             (snd (verify_message D gen st m validMessages s))"
  using assms by (simp add: verify_message_def effect_defs)

theorem verify_skips_exiting_validator_witness:
  "verify (sample_deps [] None) [message_1] (sample_system [''0xaa'']) =
     (Inr [],
      \<lparr>world = [''0xaa''],
        metrics = no_metrics\<lparr>exitMessages := inc ''false'' (exitMessages no_metrics)\<rparr>,
        journal = [CallGenesis, CallState, CallValidatorInfo ''1'',
                   Log LDebug ''0xaa exiting(ed), skipping validation'']\<rparr>)"
proof -
  let ?D = "sample_deps [] None"
  let ?gen = "\<lparr>genesis_time = ''1606824023'', genesis_validators_root = ''0x4b'',
                genesis_fork_version = ''0x00''\<rparr>"
  let ?st = "\<lparr>previous_version = ''0x01'', current_version = ''0x02'', state_epoch = ''100''\<rparr>"
  let ?s2 = "\<lparr>world = [''0xaa''], metrics = no_metrics, journal = [CallGenesis, CallState]\<rparr>
               :: string list system"
  let ?info = "\<lparr>index = ''1'', pubKey = ''0xaa'', isExiting = True\<rparr>"
  have fetch: "validatorInfo (consensusApi ?D) (validator_index (message message_1)) (world ?s2) =
                 (Inr ?info, [''0xaa''])"
    by (simp add: sample_defs)
  have exiting: "isExiting ?info" by simp
  have body: "verify_message ?D ?gen ?st message_1 [] ?s2 =
      ([], \<lparr>world = [''0xaa''],
             metrics = no_metrics\<lparr>exitMessages := inc ''false'' (exitMessages no_metrics)\<rparr>,
             journal = [CallGenesis, CallState, CallValidatorInfo ''1'',
                        Log LDebug ''0xaa exiting(ed), skipping validation'']\<rparr>)"
  proof -
    have w: "world (snd (verify_message ?D ?gen ?st message_1 [] ?s2)) = [''0xaa'']"
      by (simp add: verify_message_def effect_defs sample_defs)
    from verify_skips_exiting_validator [OF fetch exiting, of ?gen ?st "[]"] w
    show ?thesis
      by (cases "verify_message ?D ?gen ?st message_1 [] ?s2")
         (simp add: message_1_def)
  qed
  show ?thesis
    by (simp add: verify_def call_def sample_consensusApi_def sample_system_def sample_deps_def body [unfolded sample_deps_def sample_consensusApi_def])
qed

text \<open>Claim C1 as stated fails: in the sample, validator 1 is exiting, its message is
  left out, and the invalid count goes from 0 to 1.\<close>

theorem verify_skips_exiting_validator_counterexample:
  "isExiting (projr (fst (sample_validatorInfo (validator_index (message message_1)) [''0xaa'']))) \<and>
   fst (verify (sample_deps [] None) [message_1] (sample_system [''0xaa''])) = Inr [] \<and>
   exitMessages (metrics (sample_system [''0xaa''])) ''false'' = 0 \<and>
   exitMessages (metrics (snd (verify (sample_deps [] None) [message_1] (sample_system [''0xaa'']))))
     ''false'' = 1"
  by (simp add: verify_def verify_message_def effect_defs inc_def sample_defs)



subsection \<open>The counters\<close>

text \<open>
  Claim C3, as the code has it. Every iteration of \<^verbatim>\<open>load\<close> that ends without a
  message and every iteration of \<^verbatim>\<open>verify\<close> adds one to exactly one label of the
  exit-messages counter, and every call of \<^verbatim>\<open>exit\<close> that returns adds one to exactly
  one label of the exit-actions counter, with two exceptions that change no count at
  all: the iteration of \<^verbatim>\<open>load\<close> whose read failed, and the call of \<^verbatim>\<open>exit\<close> on a
  validator that is already exiting. A call of \<^verbatim>\<open>exit\<close> that raises changes no count
  either. (An iteration of \<^verbatim>\<open>load\<close> that pushes a message changes no count: the
  message goes on to \<^verbatim>\<open>verify\<close>.)
\<close>

theorem terminating_branches_metrics:
  "(case load_file D location messages s of
      (Inl e, s') \<Rightarrow> True
    | (Inr messages', s') \<Rightarrow>
        metrics s' =
          (if isl (fst (readFile D location s)) \<or> messages' \<noteq> messages then metrics s
           else (metrics s)\<lparr>exitMessages := inc ''false'' (exitMessages (metrics s))\<rparr>)) \<and>
   (case verify_message D gen st m validMessages s of
      (validMessages', s') \<Rightarrow>
        metrics s' =
          (metrics s)\<lparr>exitMessages :=
             inc (if validMessages' = validMessages then ''false'' else ''true'')
               (exitMessages (metrics s))\<rparr>) \<and>
   (case exit D messages pubkey s of
      (Inl e, s') \<Rightarrow> metrics s' = metrics s
    | (Inr u, s') \<Rightarrow>
        if case_sum (\<lambda>e. False) isExiting (fst (validatorInfo (consensusApi D) pubkey (world s)))
        then metrics s' = metrics s
        else metrics s' = (metrics s)\<lparr>exitActions := inc ''success'' (exitActions (metrics s))\<rparr> \<or>
             metrics s' = (metrics s)\<lparr>exitActions := inc ''error'' (exitActions (metrics s))\<rparr>)"
proof (intro conjI)
  show "case load_file D location messages s of
      (Inl e, s') \<Rightarrow> True
    | (Inr messages', s') \<Rightarrow>
        metrics s' =
          (if isl (fst (readFile D location s)) \<or> messages' \<noteq> messages then metrics s
           else (metrics s)\<lparr>exitMessages := inc ''false'' (exitMessages (metrics s))\<rparr>)"
    by (auto simp: load_file_def readFile_def effect_defs split: prod.splits sum.splits)
next
  show "case verify_message D gen st m validMessages s of
      (validMessages', s') \<Rightarrow>
        metrics s' =
          (metrics s)\<lparr>exitMessages :=
             inc (if validMessages' = validMessages then ''false'' else ''true'')
               (exitMessages (metrics s))\<rparr>"
    by (auto simp: verify_message_def verifyFork_def effect_defs Let_def
          split: prod.splits sum.splits)
next
  show "case exit D messages pubkey s of
      (Inl e, s') \<Rightarrow> metrics s' = metrics s
    | (Inr u, s') \<Rightarrow>
        if case_sum (\<lambda>e. False) isExiting (fst (validatorInfo (consensusApi D) pubkey (world s)))
        then metrics s' = metrics s
        else metrics s' = (metrics s)\<lparr>exitActions := inc ''success'' (exitActions (metrics s))\<rparr> \<or>
             metrics s' = (metrics s)\<lparr>exitActions := inc ''error'' (exitActions (metrics s))\<rparr>"
    by (auto simp: exit_def effect_defs Let_def split: prod.splits sum.splits option.splits)
qed

theorem terminating_branches_metrics_witness:
  "metrics (snd (load_file (sample_deps [] None) ''s3://bucket/nosig.json'' [] (sample_system []))) =
     no_metrics\<lparr>exitMessages := inc ''false'' (exitMessages no_metrics)\<rparr>"
proof -
  let ?D = "sample_deps [] None"
  have rd: "\<not> isl (fst (readFile ?D ''s3://bucket/nosig.json'' (sample_system [])))"
    by (simp add: readFile_def startsWith_def call_def sample_defs)
  have r: "fst (load_file ?D ''s3://bucket/nosig.json'' [] (sample_system [])) = Inr []"
    by (simp add: load_file_def readFile_def startsWith_def decryptMessage_def effect_defs
          sample_defs)
  from terminating_branches_metrics [where D = ?D and location = "''s3://bucket/nosig.json''"
      and messages = "[]" and s = "sample_system []", THEN conjunct1] rd r
  show ?thesis by (simp add: split_beta sample_system_def)
qed

text \<open>Claim C3 as stated fails on both branches it names: a location that cannot be
  read, and an ejection event for a validator that is already exiting, leave every
  count as it was.\<close>

theorem terminating_branches_metrics_counterexample:
  "fst (load (sample_deps [''s3://bucket/missing.json''] None) (sample_system [])) = Inr [] \<and>
   metrics (snd (load (sample_deps [''s3://bucket/missing.json''] None) (sample_system []))) =
     metrics (sample_system []) \<and>
   fst (exit (sample_deps [] None) [message_1] ''0xaa'' (sample_system [''0xaa''])) = Inr () \<and>
   metrics (snd (exit (sample_deps [] None) [message_1] ''0xaa'' (sample_system [''0xaa'']))) =
     metrics (sample_system [''0xaa''])"
  by (simp add: load_def load_file_def readFile_def startsWith_def exit_def effect_defs sample_defs)

end
